theory Spec2Isabelle
  imports Complex_Main
begin

section \<open>JavaScript values\<close>

text \<open>
  Strings are lists of code units. Only the code units U+0000 to U+00FF are represented
  (the type \<^typ>\<open>char\<close>); the white space of \<open>String.prototype.trim\<close> inside that range
  is TAB, LF, VT, FF, CR, SPACE and NBSP.

  A JavaScript number is a finite double (every one of them is a rational), NaN or an
  infinity. Comparisons of doubles are exact; the one product the program computes is
  taken from the engine, which rounds it.
\<close>

datatype jsnum = Fin rat | NaN | PosInf | NegInf

text \<open>
  \<open>Math.min\<close> and the comparison \<open><\<close> on numbers: \<open>Math.min\<close> is NaN when an argument
  is, and a comparison with NaN is false. Comparing two doubles is exact.
\<close>

fun Math_min :: "jsnum \<Rightarrow> jsnum \<Rightarrow> jsnum" where
  "Math_min NaN y = NaN"
| "Math_min x NaN = NaN"
| "Math_min NegInf y = NegInf"
| "Math_min x NegInf = NegInf"
| "Math_min PosInf y = y"
| "Math_min x PosInf = x"
| "Math_min (Fin a) (Fin b) = Fin (min a b)"

fun js_less :: "jsnum \<Rightarrow> jsnum \<Rightarrow> bool" where
  "js_less NaN y = False"
| "js_less x NaN = False"
| "js_less x NegInf = False"
| "js_less NegInf y = True"
| "js_less PosInf y = False"
| "js_less (Fin a) PosInf = True"
| "js_less (Fin a) (Fin b) = (a < b)"

text \<open>
  The values \<open>JSON.parse\<close> can return. An object is the list of its members, each key
  once. The value \<open>undefined\<close> of a missing property is \<open>None\<close> of \<open>json option\<close>.
\<close>

datatype json =
    JNull
  | JBool bool
  | JNum rat
  | JStr string
  | JArr "json list"
  | JObj "(string \<times> json) list"

text \<open>ToBoolean: \<open>null\<close>, \<open>false\<close>, \<open>0\<close> and the empty string are falsy.\<close>

fun truthy :: "json \<Rightarrow> bool" where
  "truthy JNull = False"
| "truthy (JBool b) = b"
| "truthy (JNum r) = (r \<noteq> 0)"
| "truthy (JStr s) = (s \<noteq> [])"
| "truthy (JArr xs) = True"
| "truthy (JObj kvs) = True"

fun truthy_opt :: "json option \<Rightarrow> bool" where
  "truthy_opt None = False"
| "truthy_opt (Some v) = truthy v"

text \<open>\<open>a || b\<close> where either side may be \<open>undefined\<close>.\<close>

definition js_or :: "json option \<Rightarrow> json option \<Rightarrow> json option" where
  "js_or a b = (if truthy_opt a then a else b)"

text \<open>
  \<open>v.k\<close> for a value \<open>v\<close> other than \<open>null\<close> and a key \<open>k\<close> that is not a built-in
  member of strings, numbers, booleans or arrays (every key read in this program is such a
  key). On \<open>null\<close> the access throws a TypeError; callers test for \<open>JNull\<close> first.
\<close>

fun js_get :: "json \<Rightarrow> string \<Rightarrow> json option" where
  "js_get (JObj kvs) k = map_of kvs k"
| "js_get _ k = None"

text \<open>\<open>a || b\<close> where \<open>b\<close> is a value.\<close>

fun or_value :: "json option \<Rightarrow> json \<Rightarrow> json" where
  "or_value (Some v) d = (if truthy v then v else d)"
| "or_value None d = d"

definition is_ws :: "char \<Rightarrow> bool" where
  "is_ws c = (of_char c \<in> {9, 10, 11, 12, 13, 32, 160 :: nat})"

definition trim :: "string \<Rightarrow> string" where
  "trim s = rev (dropWhile is_ws (rev (dropWhile is_ws s)))"

text \<open>
  What the program takes from the JavaScript engine: \<open>Number(s)\<close> on a string,
  \<open>String(x)\<close> on a number, the product \<open>a * b\<close> of two finite numbers as the engine
  computes it in doubles, and the message of the TypeError thrown by reading a property
  of \<open>null\<close> (a function of the property's name).
\<close>

record engine =
  Number :: "string \<Rightarrow> jsnum"
  num_to_string :: "rat \<Rightarrow> string"
  multiply :: "rat \<Rightarrow> rat \<Rightarrow> jsnum"
  null_prop_error :: "string \<Rightarrow> string"

section \<open>Payload normalizer (CropForm.jsx)\<close>

record form =
  form_location :: string
  form_previous_crop :: string
  form_land_size :: string
  form_irrigation_type :: string
  form_goal :: string
  form_temperature :: string
  form_humidity :: string
  form_rainfall :: string
  form_N :: string
  form_P :: string
  form_K :: string
  form_ph :: string

definition INITIAL_FORM :: form where
  "INITIAL_FORM = \<lparr>form_location = '''', form_previous_crop = '''', form_land_size = '''',
     form_irrigation_type = '''', form_goal = '''', form_temperature = '''',
     form_humidity = '''', form_rainfall = '''', form_N = '''', form_P = '''',
     form_K = '''', form_ph = ''''\<rparr>"

definition mapTemperatureCategory :: "string \<Rightarrow> jsnum option" where
  "mapTemperatureCategory v =
     (if v = ''Cool'' then Some (Fin 18)
      else if v = ''Moderate'' then Some (Fin 25)
      else if v = ''Hot'' then Some (Fin 32)
      else None)"

definition mapHumidityCategory :: "string \<Rightarrow> jsnum option" where
  "mapHumidityCategory v =
     (if v = ''Low'' then Some (Fin 30)
      else if v = ''Medium'' then Some (Fin 55)
      else if v = ''High'' then Some (Fin 80)
      else None)"

definition mapRainfallCategory :: "string \<Rightarrow> jsnum option" where
  "mapRainfallCategory v =
     (if v = ''Low'' then Some (Fin 400)
      else if v = ''Medium'' then Some (Fin 750)
      else if v = ''High'' then Some (Fin 1200)
      else None)"

record soil =
  soil_N :: jsnum
  soil_P :: jsnum
  soil_K :: jsnum
  soil_ph :: jsnum

record payload =
  location :: string
  previous_crop :: "string option"
  land_size :: "jsnum option"
  irrigation_type :: "string option"
  goal :: "string option"
  temperature :: "jsnum option"
  humidity :: "jsnum option"
  rainfall :: "jsnum option"
  manual_soil :: "soil option"

text \<open>\<open>s || null\<close> on a string: the empty string is falsy.\<close>

definition or_null :: "string \<Rightarrow> string option" where
  "or_null s = (if s \<noteq> '''' then Some s else None)"

definition buildPayload :: "engine \<Rightarrow> form \<Rightarrow> payload" where
  "buildPayload env f =
     (let p = \<lparr>location = trim (form_location f),
                previous_crop = or_null (form_previous_crop f),
                land_size = (if form_land_size f \<noteq> '''' then Some (Number env (form_land_size f)) else None),
                irrigation_type = or_null (form_irrigation_type f),
                goal = or_null (form_goal f),
                temperature = mapTemperatureCategory (form_temperature f),
                humidity = mapHumidityCategory (form_humidity f),
                rainfall = mapRainfallCategory (form_rainfall f),
                manual_soil = None\<rparr>
      in if form_N f \<noteq> '''' \<or> form_P f \<noteq> '''' \<or> form_K f \<noteq> '''' \<or> form_ph f \<noteq> ''''
         then p\<lparr>manual_soil := Some
                 \<lparr>soil_N = (if form_N f \<noteq> '''' then Number env (form_N f) else Fin 0),
                  soil_P = (if form_P f \<noteq> '''' then Number env (form_P f) else Fin 0),
                  soil_K = (if form_K f \<noteq> '''' then Number env (form_K f) else Fin 0),
                  soil_ph = (if form_ph f \<noteq> '''' then Number env (form_ph f) else Fin 7)\<rparr>\<rparr>
         else p)"

section \<open>Local history store (Results.jsx, Home.jsx, DiseaseDetection)\<close>

text \<open>
  The text stored under the key \<open>agrisense_history\<close>, classified by what \<open>JSON.parse\<close>
  does with it: the empty string, a non-empty text that \<open>JSON.parse\<close> rejects, or a text
  that parses to a value. The storage cell is \<open>None\<close> while the key is absent.
\<close>

datatype item = Empty_text | Unparsable | Parses json

text \<open>
  \<open>JSON.parse(localStorage.getItem(key) || "[]")\<close>: \<open>None\<close> when it throws.
\<close>

fun parse_or_empty :: "item option \<Rightarrow> json option" where
  "parse_or_empty None = Some (JArr [])"
| "parse_or_empty (Some Empty_text) = Some (JArr [])"
| "parse_or_empty (Some Unparsable) = None"
| "parse_or_empty (Some (Parses v)) = Some v"

text \<open>
  An object literal after \<open>JSON.stringify\<close>: members whose value is \<open>undefined\<close> are
  left out.
\<close>

fun obj_of :: "(string \<times> json option) list \<Rightarrow> (string \<times> json) list" where
  "obj_of [] = []"
| "obj_of ((k, None) # kvs) = obj_of kvs"
| "obj_of ((k, Some v) # kvs) = (k, v) # obj_of kvs"

definition history_entry :: "string \<Rightarrow> json \<Rightarrow> string \<Rightarrow> json" where
  "history_entry type summary date =
     JObj [(''type'', JStr type), (''summary'', summary), (''date'', JStr date)]"

text \<open>
  \<open>saveToHistory(type, summary)\<close> of Results.jsx: \<open>history.unshift(entry)\<close>, then
  \<open>setItem(key, JSON.stringify(history.slice(0, 20)))\<close>, inside \<open>try\<close>. Here \<open>now\<close> is
  \<open>new Date().toISOString()\<close> and \<open>summary\<close> the summary object as JSON. \<open>unshift\<close>
  exists on arrays only, and \<open>setItem\<close> throws when the browser refuses the write
  (\<open>write_ok\<close> is false); every exception leaves the storage as it was.
\<close>

definition saveToHistory :: "bool \<Rightarrow> string \<Rightarrow> string \<Rightarrow> json \<Rightarrow> item option \<Rightarrow> item option" where
  "saveToHistory write_ok now type summary store =
     (case parse_or_empty store of
        Some (JArr history) \<Rightarrow>
          if write_ok
          then Some (Parses (JArr (take 20 (history_entry type summary now # history))))
          else store
      | _ \<Rightarrow> store)"

text \<open>The effect of \<open>Home\<close>: the \<open>history\<close> state, initially \<open>[]\<close>, after the read.\<close>

definition Home_useEffect :: "item option \<Rightarrow> json" where
  "Home_useEffect store =
     (case parse_or_empty store of
        Some (JArr h) \<Rightarrow> JArr (take 6 h)
      | Some (JStr h) \<Rightarrow> JStr (take 6 h)
      | _ \<Rightarrow> JArr [])"

definition clearHistory :: "item option \<Rightarrow> item option \<times> json" where
  "clearHistory store = (None, JArr [])"

section \<open>Disease upload pipeline (DiseaseDetection)\<close>

record js_file =
  file_name :: string
  file_size :: nat
  file_type :: string

record result =
  diseaseName :: json
  confidence :: "json option"
  treatment :: "json option"

record disease_state =
  dd_file :: "js_file option"
  dd_previewUrl :: string
  dd_isLoading :: bool
  dd_error :: string
  dd_result :: "result option"
  dd_isDragOver :: bool

definition disease_initial :: disease_state where
  "disease_initial = \<lparr>dd_file = None, dd_previewUrl = '''', dd_isLoading = False,
     dd_error = '''', dd_result = None, dd_isDragOver = False\<rparr>"

definition resetAll :: "disease_state \<Rightarrow> disease_state" where
  "resetAll st = st\<lparr>dd_file := None, dd_previewUrl := '''', dd_error := '''', dd_result := None\<rparr>"

text \<open>
  \<open>processFile(selected)\<close>; \<open>selected\<close> is \<open>None\<close> when no file was chosen, and \<open>url\<close>
  is what \<open>URL.createObjectURL(selected)\<close> returns in this call.
\<close>

definition processFile :: "string \<Rightarrow> js_file option \<Rightarrow> disease_state \<Rightarrow> disease_state" where
  "processFile url selected st =
     (let st1 = st\<lparr>dd_error := '''', dd_result := None\<rparr>
      in case selected of
           None \<Rightarrow> st1\<lparr>dd_file := None, dd_previewUrl := ''''\<rparr>
         | Some f \<Rightarrow>
             if file_size f > 10 * 1024 * 1024
             then st1\<lparr>dd_error := ''File too large. Maximum size is 10MB.''\<rparr>
             else st1\<lparr>dd_file := Some f, dd_previewUrl := url\<rparr>)"

definition handleFileChange :: "string \<Rightarrow> js_file option \<Rightarrow> disease_state \<Rightarrow> disease_state" where
  "handleFileChange url selected st = processFile url selected st"

definition startsWith :: "string \<Rightarrow> string \<Rightarrow> bool" where
  "startsWith s p = (take (length p) s = p)"

definition handleDrop :: "string \<Rightarrow> js_file option \<Rightarrow> disease_state \<Rightarrow> disease_state" where
  "handleDrop url dropped st =
     (let st1 = st\<lparr>dd_isDragOver := False\<rparr>
      in case dropped of
           Some f \<Rightarrow>
             if startsWith (file_type f) ''image/'' then processFile url dropped st1
             else st1\<lparr>dd_error := ''Please drop an image file (JPG, PNG, WebP).''\<rparr>
         | None \<Rightarrow> st1\<lparr>dd_error := ''Please drop an image file (JPG, PNG, WebP).''\<rparr>)"

text \<open>
  The outcome of a \<open>fetch\<close> followed by \<open>response.json()\<close>: the \<open>fetch\<close> rejects with
  an error of the given message; the status is not 2xx, with the parsed body (\<open>None\<close> when
  \<open>response.json()\<close> rejects); the status is 2xx and \<open>response.json()\<close> rejects with the
  given message; the status is 2xx with the parsed body.
\<close>

datatype reply =
    Net_error string
  | Http_error "json option"
  | Http_ok_invalid string
  | Http_ok json

text \<open>\<open>err?.message || fallback\<close> on the caught error's message.\<close>

definition or_else :: "string \<Rightarrow> string \<Rightarrow> string" where
  "or_else msg fallback = (if msg \<noteq> '''' then msg else fallback)"

fun is_number :: "json option \<Rightarrow> bool" where
  "is_number (Some (JNum r)) = True"
| "is_number _ = False"

text \<open>The message of the error thrown for a non-2xx reply of \<open>/detect-disease\<close>.\<close>

definition detect_error_detail :: "json option \<Rightarrow> string" where
  "detect_error_detail errData =
     (case errData of
        None \<Rightarrow> ''Disease detection request failed.''
      | Some e \<Rightarrow>
          if truthy e then
            (case js_get e ''detail'' of
               Some (JStr d) \<Rightarrow> d
             | _ \<Rightarrow> (case js_get e ''message'' of
                        Some (JStr m) \<Rightarrow> m
                      | _ \<Rightarrow> ''Disease detection request failed.''))
          else ''Disease detection request failed.'')"

text \<open>The object passed to \<open>setResult\<close>, for a body \<open>data\<close> other than \<open>null\<close>.\<close>

definition normalizeResult :: "json \<Rightarrow> result" where
  "normalizeResult data =
     \<lparr>diseaseName =
        or_value (js_or (js_or (js_get data ''disease_name'') (js_get data ''disease''))
                        (js_get data ''label''))
                 (JStr ''Unknown disease''),
      confidence =
        (if is_number (js_get data ''confidence'') then js_get data ''confidence''
         else js_get data ''confidence_percent''),
      treatment =
        js_or (js_or (js_or (js_get data ''treatment_advice'') (js_get data ''treatment''))
                     (js_get data ''recommendation''))
              (js_get data ''advice'')\<rparr>"

text \<open>
  \<open>handleDetect\<close> up to the \<open>fetch\<close>; the flag tells whether the request to
  \<open>/detect-disease\<close> is issued.
\<close>

definition handleDetect :: "disease_state \<Rightarrow> disease_state \<times> bool" where
  "handleDetect st =
     (let st1 = st\<lparr>dd_error := '''', dd_result := None\<rparr>
      in if dd_file st = None
         then (st1\<lparr>dd_error := ''Please upload a leaf image first.''\<rparr>, False)
         else (st1\<lparr>dd_isLoading := True\<rparr>, True))"

definition detect_failed :: "string \<Rightarrow> disease_state \<Rightarrow> disease_state" where
  "detect_failed msg st =
     st\<lparr>dd_error := or_else msg ''Unable to run disease detection. Ensure the backend is running.'',
        dd_isLoading := False\<rparr>"

text \<open>The history entry written by \<open>handleDetect\<close>; \<open>f\<close> is the staged file.\<close>

definition disease_entry :: "json \<Rightarrow> js_file \<Rightarrow> string \<Rightarrow> json" where
  "disease_entry data f now =
     JObj [(''type'', JStr ''disease''),
           (''summary'', JObj (obj_of
              [(''disease'', Some (or_value (js_or (js_or (js_get data ''disease_name'') (js_get data ''disease''))
                                                  (js_get data ''label''))
                                           (JStr ''Unknown''))),
               (''confidence'', js_get data ''confidence''),
               (''fileName'', Some (JStr (if file_name f \<noteq> '''' then file_name f else ''image'')))])),
           (''date'', JStr now)]"

text \<open>
  \<open>handleDetect\<close> from the reply on, on the page state and the history storage. \<open>f\<close> is
  the file the handler's closure holds, \<open>now\<close> is \<open>new Date().toISOString()\<close>, and
  \<open>write_ok\<close> tells whether \<open>setItem\<close> accepts the write.
\<close>

definition handleDetect_reply ::
  "engine \<Rightarrow> bool \<Rightarrow> string \<Rightarrow> js_file \<Rightarrow> reply \<Rightarrow> disease_state \<times> item option
     \<Rightarrow> disease_state \<times> item option" where
  "handleDetect_reply env write_ok now f r sw =
     (case sw of (st, store) \<Rightarrow>
        (case r of
           Net_error m \<Rightarrow> (detect_failed m st, store)
         | Http_error errData \<Rightarrow> (detect_failed (detect_error_detail errData) st, store)
         | Http_ok_invalid m \<Rightarrow> (detect_failed m st, store)
         | Http_ok data \<Rightarrow>
             if data = JNull then (detect_failed (null_prop_error env ''disease_name'') st, store)
             else (st\<lparr>dd_result := Some (normalizeResult data), dd_isLoading := False\<rparr>,
                   (case parse_or_empty store of
                      Some (JArr history) \<Rightarrow>
                        if write_ok
                        then Some (Parses (JArr (take 20 (disease_entry data f now # history))))
                        else store
                    | _ \<Rightarrow> store))))"

text \<open>
  \<open>confidencePercent\<close> and the condition under which the low-confidence notice is
  rendered, both functions of the \<open>result\<close> state.
\<close>

definition confidencePercent :: "engine \<Rightarrow> result option \<Rightarrow> jsnum" where
  "confidencePercent env res =
     (case res of
        None \<Rightarrow> Fin 0
      | Some r \<Rightarrow> (case confidence r of
                    Some (JNum c) \<Rightarrow> Math_min (multiply env c 100) (Fin 100)
                  | _ \<Rightarrow> Fin 0))"

definition low_confidence_notice :: "engine \<Rightarrow> result option \<Rightarrow> bool" where
  "low_confidence_notice env res =
     (res \<noteq> None \<and> js_less (Fin 0) (confidencePercent env res)
      \<and> js_less (confidencePercent env res) (Fin 40))"

section \<open>Location resolver (CropForm.jsx)\<close>

text \<open>
  \<open>Number.prototype.toFixed(f)\<close> on a finite number of magnitude below \<open>10^21\<close>: the
  integer \<open>n\<close> nearest to \<open>x * 10^f\<close> (the larger one of two), written in decimal with
  \<open>f\<close> digits after the point, and a minus sign when \<open>x < 0\<close>.
\<close>

definition digit_char :: "nat \<Rightarrow> char" where
  "digit_char d =
     (if d = 0 then CHR ''0'' else if d = 1 then CHR ''1'' else if d = 2 then CHR ''2''
      else if d = 3 then CHR ''3'' else if d = 4 then CHR ''4'' else if d = 5 then CHR ''5''
      else if d = 6 then CHR ''6'' else if d = 7 then CHR ''7'' else if d = 8 then CHR ''8''
      else CHR ''9'')"

fun digits :: "nat \<Rightarrow> string" where
  "digits n = (if n < 10 then [digit_char n] else digits (n div 10) @ [digit_char (n mod 10)])"

declare digits.simps [simp del]

definition toFixed_abs :: "nat \<Rightarrow> rat \<Rightarrow> string" where
  "toFixed_abs f x =
     (let n = nat \<lfloor>x * 10 ^ f + 1 / 2\<rfloor>;
          m = digits n;
          m' = (if f \<noteq> 0 \<and> length m \<le> f then replicate (f + 1 - length m) (CHR ''0'') @ m else m)
      in if f \<noteq> 0
         then take (length m' - f) m' @ ''.'' @ drop (length m' - f) m'
         else m')"

definition toFixed :: "nat \<Rightarrow> rat \<Rightarrow> string" where
  "toFixed f x = (if x < 0 then ''-'' @ toFixed_abs f (- x) else toFixed_abs f x)"

text \<open>
  The outcome of the reverse-geocode request: the \<open>fetch\<close> rejects; the status is not
  2xx; the status is 2xx but \<open>res.json()\<close> rejects or gives \<open>null\<close>, so that reading
  \<open>data.location\<close> throws; otherwise \<open>data.location\<close>, \<open>None\<close> when it is \<open>undefined\<close>.
  The service's \<open>location\<close> is a string.
\<close>

datatype geo_reply = Geo_rejected | Geo_status | Geo_no_data | Geo_data "string option"

definition gps_fallback :: "rat \<Rightarrow> rat \<Rightarrow> string" where
  "gps_fallback latitude longitude = ''GPS: '' @ toFixed 4 latitude @ '', '' @ toFixed 4 longitude"

definition resolveLocation :: "rat \<Rightarrow> rat \<Rightarrow> geo_reply \<Rightarrow> string" where
  "resolveLocation latitude longitude r =
     (case r of
        Geo_data (Some name) \<Rightarrow> if name \<noteq> '''' then name else gps_fallback latitude longitude
      | Geo_data None \<Rightarrow> gps_fallback latitude longitude
      | _ \<Rightarrow> gps_fallback latitude longitude)"

section \<open>Advisory workflow (CropForm.jsx)\<close>

datatype field =
    F_location | F_previous_crop | F_land_size | F_irrigation_type | F_goal | F_temperature
  | F_humidity | F_rainfall | F_N | F_P | F_K | F_ph

fun set_field :: "field \<Rightarrow> string \<Rightarrow> form \<Rightarrow> form" where
  "set_field F_location v f = f\<lparr>form_location := v\<rparr>"
| "set_field F_previous_crop v f = f\<lparr>form_previous_crop := v\<rparr>"
| "set_field F_land_size v f = f\<lparr>form_land_size := v\<rparr>"
| "set_field F_irrigation_type v f = f\<lparr>form_irrigation_type := v\<rparr>"
| "set_field F_goal v f = f\<lparr>form_goal := v\<rparr>"
| "set_field F_temperature v f = f\<lparr>form_temperature := v\<rparr>"
| "set_field F_humidity v f = f\<lparr>form_humidity := v\<rparr>"
| "set_field F_rainfall v f = f\<lparr>form_rainfall := v\<rparr>"
| "set_field F_N v f = f\<lparr>form_N := v\<rparr>"
| "set_field F_P v f = f\<lparr>form_P := v\<rparr>"
| "set_field F_K v f = f\<lparr>form_K := v\<rparr>"
| "set_field F_ph v f = f\<lparr>form_ph := v\<rparr>"

datatype wf_step = Form_step | Confirm_step

record result_payload =
  recommendedCrop :: "json option"
  expectedYield :: "json option"
  estimatedProfit :: "json option"
  topCrops :: json
  inputs :: payload
  inputs_soil_source :: "json option"
  inputs_weather_source :: "json option"
  result_land_size :: "jsnum option"

record navigation =
  nav_data :: result_payload
  nav_inputSummary :: json

text \<open>What went over the network, in the order it happened.\<close>

datatype net_event =
    Sent_preview payload
  | Preview_replied reply
  | Sent_confirm payload
  | Confirm_replied reply

text \<open>
  The state of the page. The first nine fields are the component's React state (the two
  display toggles \<open>showMap\<close> and \<open>showAdditionalInfo\<close>, which no handler reads, are left
  out). The others are its environment: the number of preview requests awaiting their
  reply, the confirm requests awaiting theirs (each with the \<open>form\<close> and \<open>previewData\<close>
  its handler's closure holds), the network log, the calls of \<open>navigate\<close>, and the
  storage cell \<open>agrisense_last_location\<close>.
\<close>

record crop_state =
  form :: form
  isLoading :: bool
  error :: string
  usingGps :: bool
  gpsMessage :: string
  step :: wf_step
  previewData :: json
  mapCoords :: "(rat \<times> rat) option"
  isListening :: bool
  pending_previews :: nat
  pending_confirms :: "(form \<times> json) list"
  net_log :: "net_event list"
  navigations :: "navigation list"
  last_location :: "(string \<times> rat \<times> rat) option"

text \<open>The state at mount, from the cached location.\<close>

definition mount :: "(string \<times> rat \<times> rat) option \<Rightarrow> crop_state" where
  "mount cachedLoc =
     \<lparr>form = (case cachedLoc of
                 Some (name, coords) \<Rightarrow>
                   if name \<noteq> '''' then INITIAL_FORM\<lparr>form_location := name\<rparr> else INITIAL_FORM
               | None \<Rightarrow> INITIAL_FORM),
      isLoading = False, error = '''', usingGps = False, gpsMessage = '''',
      step = Form_step, previewData = JNull,
      mapCoords = map_option snd cachedLoc,
      isListening = False, pending_previews = 0, pending_confirms = [], net_log = [],
      navigations = [], last_location = cachedLoc\<rparr>"

definition saveLocationCache :: "bool \<Rightarrow> string \<Rightarrow> rat \<times> rat \<Rightarrow> crop_state \<Rightarrow> crop_state" where
  "saveLocationCache write_ok name coords w =
     (if write_ok then w\<lparr>last_location := Some (name, coords)\<rparr> else w)"

definition handleChange :: "field \<Rightarrow> string \<Rightarrow> crop_state \<Rightarrow> crop_state" where
  "handleChange name v w = w\<lparr>form := set_field name v (form w), gpsMessage := ''''\<rparr>"

text \<open>\<open>handleUseGps\<close>; \<open>supported\<close> tells whether \<open>navigator.geolocation\<close> exists.\<close>

definition handleUseGps :: "bool \<Rightarrow> crop_state \<Rightarrow> crop_state" where
  "handleUseGps supported w =
     (if \<not> supported
      then w\<lparr>error := ''GPS is not supported in this browser. Please enter location manually.''\<rparr>
      else w\<lparr>error := '''', gpsMessage := '''', usingGps := True\<rparr>)"

definition gps_success :: "bool \<Rightarrow> rat \<Rightarrow> rat \<Rightarrow> geo_reply \<Rightarrow> crop_state \<Rightarrow> crop_state" where
  "gps_success write_ok latitude longitude r w =
     (let locationName = resolveLocation latitude longitude r
      in (saveLocationCache write_ok locationName (latitude, longitude)
            (w\<lparr>form := (form w)\<lparr>form_location := locationName\<rparr>,
               mapCoords := Some (latitude, longitude),
               gpsMessage := locationName\<rparr>))\<lparr>usingGps := False\<rparr>)"

definition gps_error :: "crop_state \<Rightarrow> crop_state" where
  "gps_error w =
     w\<lparr>error := ''Unable to fetch GPS location. Please enter location manually.'',
       usingGps := False\<rparr>"

text \<open>\<open>handleMapSelect\<close> up to the \<open>await\<close>, and from the reverse-geocode reply on.\<close>

definition handleMapSelect :: "rat \<Rightarrow> rat \<Rightarrow> crop_state \<Rightarrow> crop_state" where
  "handleMapSelect lat lng w = w\<lparr>mapCoords := Some (lat, lng), gpsMessage := ''''\<rparr>"

definition handleMapSelect_resolved :: "bool \<Rightarrow> rat \<Rightarrow> rat \<Rightarrow> geo_reply \<Rightarrow> crop_state \<Rightarrow> crop_state" where
  "handleMapSelect_resolved write_ok lat lng r w =
     (let locationName = resolveLocation lat lng r
      in saveLocationCache write_ok locationName (lat, lng)
           (w\<lparr>form := (form w)\<lparr>form_location := locationName\<rparr>, gpsMessage := locationName\<rparr>))"

text \<open>
  \<open>handleVoiceInput\<close> without speech recognition, and the four callbacks of the
  recognizer it starts otherwise.
\<close>

definition voice_unsupported :: "crop_state \<Rightarrow> crop_state" where
  "voice_unsupported w = w\<lparr>error := ''Voice input is not supported in this browser.''\<rparr>"

definition voice_onstart :: "crop_state \<Rightarrow> crop_state" where
  "voice_onstart w = w\<lparr>isListening := True\<rparr>"

definition voice_onend :: "crop_state \<Rightarrow> crop_state" where
  "voice_onend w = w\<lparr>isListening := False\<rparr>"

definition voice_onerror :: "crop_state \<Rightarrow> crop_state" where
  "voice_onerror w =
     w\<lparr>isListening := False, error := ''Could not recognize speech. Please try again.''\<rparr>"

definition voice_onresult :: "string \<Rightarrow> crop_state \<Rightarrow> crop_state" where
  "voice_onresult transcript w =
     w\<lparr>form := (form w)\<lparr>form_location := transcript\<rparr>, gpsMessage := ''''\<rparr>"

text \<open>\<open>Array.prototype.join\<close> on strings, and \<open>String(v)\<close>.\<close>

fun join :: "string \<Rightarrow> string list \<Rightarrow> string" where
  "join sep [] = ''''"
| "join sep [x] = x"
| "join sep (x # y # ys) = x @ sep @ join sep (y # ys)"

fun to_string :: "(rat \<Rightarrow> string) \<Rightarrow> json \<Rightarrow> string" where
  "to_string f JNull = ''null''"
| "to_string f (JBool b) = (if b then ''true'' else ''false'')"
| "to_string f (JNum r) = f r"
| "to_string f (JStr s) = s"
| "to_string f (JArr xs) = join '','' (map (\<lambda>x. if x = JNull then '''' else to_string f x) xs)"
| "to_string f (JObj kvs) = ''[object Object]''"

text \<open>An element of \<open>detail.map((d) => d.msg)\<close> as \<open>join\<close> prints it.\<close>

fun join_part :: "(rat \<Rightarrow> string) \<Rightarrow> json option \<Rightarrow> string" where
  "join_part f None = ''''"
| "join_part f (Some JNull) = ''''"
| "join_part f (Some v) = to_string f v"

text \<open>\<open>errData?.detail\<close>, where \<open>errData\<close> is \<open>null\<close> when \<open>response.json()\<close> rejected.\<close>

fun optional_detail :: "json option \<Rightarrow> json option" where
  "optional_detail None = None"
| "optional_detail (Some JNull) = None"
| "optional_detail (Some e) = js_get e ''detail''"

text \<open>
  The message of the error thrown for a non-2xx reply in \<open>handlePreview\<close> and
  \<open>handleConfirm\<close>: \<open>Error(detail)\<close>, or the TypeError of \<open>d.msg\<close> on a \<open>null\<close> element.
  \<open>dflt\<close> is the handler's own default text.
\<close>

definition error_detail :: "engine \<Rightarrow> string \<Rightarrow> json option \<Rightarrow> string" where
  "error_detail env dflt errData =
     (case optional_detail errData of
        None \<Rightarrow> dflt
      | Some d \<Rightarrow>
          if \<not> truthy d then dflt
          else (case d of
                  JArr ds \<Rightarrow>
                    if JNull \<in> set ds then null_prop_error env ''msg''
                    else (let joined = join ''; '' (map (\<lambda>x. join_part (num_to_string env) (js_get x ''msg'')) ds)
                          in if joined \<noteq> '''' then joined else dflt)
                | _ \<Rightarrow> to_string (num_to_string env) d))"

text \<open>\<open>handlePreview\<close> up to the \<open>fetch\<close>.\<close>

definition handlePreview :: "engine \<Rightarrow> crop_state \<Rightarrow> crop_state" where
  "handlePreview env w =
     (let w1 = w\<lparr>error := ''''\<rparr>
      in if trim (form_location (form w)) = ''''
         then w1\<lparr>error := ''Please enter a location.''\<rparr>
         else w1\<lparr>isLoading := True,
                 pending_previews := Suc (pending_previews w),
                 net_log := net_log w @ [Sent_preview (buildPayload env (form w))]\<rparr>)"

definition preview_failed :: "string \<Rightarrow> crop_state \<Rightarrow> crop_state" where
  "preview_failed msg w =
     w\<lparr>error := or_else msg ''Unable to load location data. Check backend and try again.'',
       isLoading := False\<rparr>"

text \<open>\<open>handlePreview\<close> from the reply on; it needs a preview request awaiting its reply.\<close>

definition handlePreview_reply :: "engine \<Rightarrow> reply \<Rightarrow> crop_state \<Rightarrow> crop_state" where
  "handlePreview_reply env r w =
     (if pending_previews w = 0 then w
      else
        (let w1 = w\<lparr>pending_previews := pending_previews w - 1,
                       net_log := net_log w @ [Preview_replied r]\<rparr>
         in case r of
              Net_error m \<Rightarrow> preview_failed m w1
            | Http_error errData \<Rightarrow> preview_failed (error_detail env ''Preview failed.'' errData) w1
            | Http_ok_invalid m \<Rightarrow> preview_failed m w1
            | Http_ok data \<Rightarrow> w1\<lparr>previewData := data, step := Confirm_step, isLoading := False\<rparr>))"

text \<open>\<open>handleConfirm\<close> up to the \<open>fetch\<close>.\<close>

definition handleConfirm :: "engine \<Rightarrow> crop_state \<Rightarrow> crop_state" where
  "handleConfirm env w =
     (if \<not> truthy (previewData w) then w
      else w\<lparr>isLoading := True, error := '''',
             pending_confirms := pending_confirms w @ [(form w, previewData w)],
             net_log := net_log w @ [Sent_confirm (buildPayload env (form w))]\<rparr>)"

definition confirm_failed :: "string \<Rightarrow> crop_state \<Rightarrow> crop_state" where
  "confirm_failed msg w =
     w\<lparr>error := or_else msg ''Unable to fetch recommendations. Please try again.'',
       isLoading := False\<rparr>"

text \<open>The argument of \<open>navigate\<close>, for a body \<open>advisory\<close> other than \<open>null\<close>.\<close>

definition resultPayload :: "engine \<Rightarrow> form \<Rightarrow> json \<Rightarrow> result_payload" where
  "resultPayload env f advisory =
     \<lparr>recommendedCrop = js_get advisory ''recommended_crop'',
      expectedYield = js_get advisory ''expected_yield'',
      estimatedProfit = js_get advisory ''estimated_profit'',
      topCrops = or_value (js_get advisory ''top_crops'')
                   (JArr [JObj (obj_of [(''crop_name'', js_get advisory ''recommended_crop''),
                                        (''expected_yield'', js_get advisory ''expected_yield''),
                                        (''estimated_profit'', js_get advisory ''estimated_profit'')])]),
      inputs = buildPayload env f,
      inputs_soil_source = js_get advisory ''soil_source'',
      inputs_weather_source = js_get advisory ''weather_source'',
      result_land_size = (if form_land_size f \<noteq> '''' then Some (Number env (form_land_size f)) else None)\<rparr>"

text \<open>
  \<open>handleConfirm\<close> from the reply on, for the request issued while the form was \<open>f\<close>
  and the preview \<open>pd\<close>; it needs that request to await its reply.
\<close>

definition handleConfirm_reply :: "engine \<Rightarrow> form \<Rightarrow> json \<Rightarrow> reply \<Rightarrow> crop_state \<Rightarrow> crop_state" where
  "handleConfirm_reply env f pd r w =
     (if (f, pd) \<notin> set (pending_confirms w) then w
      else
        (let w1 = w\<lparr>pending_confirms := remove1 (f, pd) (pending_confirms w),
                       net_log := net_log w @ [Confirm_replied r]\<rparr>
         in case r of
              Net_error m \<Rightarrow> confirm_failed m w1
            | Http_error errData \<Rightarrow> confirm_failed (error_detail env ''Advisory request failed.'' errData) w1
            | Http_ok_invalid m \<Rightarrow> confirm_failed m w1
            | Http_ok advisory \<Rightarrow>
                if advisory = JNull
                then confirm_failed (null_prop_error env ''recommended_crop'') w1
                else w1\<lparr>navigations := navigations w @
                          [\<lparr>nav_data = resultPayload env f advisory, nav_inputSummary = pd\<rparr>],
                        isLoading := False\<rparr>))"

definition handleBackToForm :: "crop_state \<Rightarrow> crop_state" where
  "handleBackToForm w = w\<lparr>step := Form_step, previewData := JNull, error := ''''\<rparr>"

text \<open>
  Everything that can happen to the page, and the page's reaction. Handlers are not
  restricted to the moments at which their control is rendered and enabled.
\<close>

datatype event =
    Change field string
  | Voice_unsupported
  | Voice_start
  | Voice_end
  | Voice_error
  | Voice_result string
  | Use_gps bool
  | Gps_success bool rat rat geo_reply
  | Gps_error
  | Map_select rat rat
  | Map_resolved bool rat rat geo_reply
  | Submit
  | Preview_reply reply
  | Confirm
  | Confirm_reply form json reply
  | Back

fun dispatch :: "engine \<Rightarrow> event \<Rightarrow> crop_state \<Rightarrow> crop_state" where
  "dispatch env (Change name v) w = handleChange name v w"
| "dispatch env Voice_unsupported w = voice_unsupported w"
| "dispatch env Voice_start w = voice_onstart w"
| "dispatch env Voice_end w = voice_onend w"
| "dispatch env Voice_error w = voice_onerror w"
| "dispatch env (Voice_result t) w = voice_onresult t w"
| "dispatch env (Use_gps supported) w = handleUseGps supported w"
| "dispatch env (Gps_success ok lat lng r) w = gps_success ok lat lng r w"
| "dispatch env Gps_error w = gps_error w"
| "dispatch env (Map_select lat lng) w = handleMapSelect lat lng w"
| "dispatch env (Map_resolved ok lat lng r) w = handleMapSelect_resolved ok lat lng r w"
| "dispatch env Submit w = handlePreview env w"
| "dispatch env (Preview_reply r) w = handlePreview_reply env r w"
| "dispatch env Confirm w = handleConfirm env w"
| "dispatch env (Confirm_reply f pd r) w = handleConfirm_reply env f pd r w"
| "dispatch env Back w = handleBackToForm w"

fun run :: "engine \<Rightarrow> event list \<Rightarrow> crop_state \<Rightarrow> crop_state" where
  "run env [] w = w"
| "run env (e # es) w = run env es (dispatch env e w)"

text \<open>
  What holds of the page after any sequence of events: a truthy preview in the state came
  with a logged 2xx preview reply; a preview request awaiting its reply was logged; in the
  log, every confirm request comes after a 2xx preview reply with a truthy body, and every
  preview reply after a preview request.
\<close>

definition workflow_inv :: "crop_state \<Rightarrow> bool" where
  "workflow_inv w \<longleftrightarrow>
     (truthy (previewData w) \<longrightarrow>
        (\<exists>d. truthy d \<and> Preview_replied (Http_ok d) \<in> set (net_log w)))
   \<and> (0 < pending_previews w \<longrightarrow> (\<exists>q. Sent_preview q \<in> set (net_log w)))
   \<and> (\<forall>pre p post. net_log w = pre @ Sent_confirm p # post \<longrightarrow>
        (\<exists>d. truthy d \<and> Preview_replied (Http_ok d) \<in> set pre))
   \<and> (\<forall>pre r post. net_log w = pre @ Preview_replied r # post \<longrightarrow>
        (\<exists>q. Sent_preview q \<in> set pre))"

section \<open>Sequences of history operations\<close>

text \<open>
  The three ways the program touches the history storage: \<open>saveToHistory("crop", summary)\<close>
  of the results page, the reply of a detection request on the disease page, and
  \<open>clearHistory\<close> of the home page.
\<close>

datatype history_op =
    Crop_saved bool string json
  | Disease_replied bool string js_file reply disease_state
  | Cleared

fun history_step :: "engine \<Rightarrow> history_op \<Rightarrow> item option \<Rightarrow> item option" where
  "history_step env (Crop_saved write_ok now summary) store =
     saveToHistory write_ok now ''crop'' summary store"
| "history_step env (Disease_replied write_ok now f r st) store =
     snd (handleDetect_reply env write_ok now f r (st, store))"
| "history_step env Cleared store = fst (clearHistory store)"

fun history_run :: "engine \<Rightarrow> history_op list \<Rightarrow> item option \<Rightarrow> item option" where
  "history_run env [] store = store"
| "history_run env (x # xs) store = history_run env xs (history_step env x store)"

text \<open>The entries a reader of the storage finds.\<close>

definition entries :: "item option \<Rightarrow> json list" where
  "entries store = (case parse_or_empty store of Some (JArr h) \<Rightarrow> h | _ \<Rightarrow> [])"

text \<open>
  The entry an operation hands to \<open>unshift\<close> when it gets as far as writing: a crop
  save or a detection reply with a 2xx status and a body other than \<open>null\<close>, whose
  \<open>setItem\<close> the browser accepts.
\<close>

fun appended :: "history_op \<Rightarrow> json option" where
  "appended (Crop_saved write_ok now summary) =
     (if write_ok then Some (history_entry ''crop'' summary now) else None)"
| "appended (Disease_replied write_ok now f (Http_ok data) st) =
     (if write_ok \<and> data \<noteq> JNull then Some (disease_entry data f now) else None)"
| "appended _ = None"

text \<open>The key is absent, or holds an array of at most 20 entries.\<close>

fun bounded_store :: "item option \<Rightarrow> bool" where
  "bounded_store None = True"
| "bounded_store (Some (Parses (JArr h))) = (length h \<le> 20)"
| "bounded_store _ = False"

section \<open>The specification's field lookup\<close>

text \<open>
  The first of the listed fields that is present in the response, as the specification
  words the lookup of the disease name, and the first whose value is truthy.
\<close>

fun first_present :: "json \<Rightarrow> string list \<Rightarrow> json option" where
  "first_present data [] = None"
| "first_present data (k # ks) =
     (case js_get data k of Some v \<Rightarrow> Some v | None \<Rightarrow> first_present data ks)"

fun first_truthy :: "json \<Rightarrow> string list \<Rightarrow> json option" where
  "first_truthy data [] = None"
| "first_truthy data (k # ks) =
     (if truthy_opt (js_get data k) then js_get data k else first_truthy data ks)"

section \<open>Sample inputs\<close>

text \<open>
  A sample engine. Its product is the exact one, which is the engine's product wherever
  the exact product is itself a double, as for \<open>0 * 100\<close> and \<open>1 / 4 * 100\<close>.
\<close>

definition sample_engine :: engine where
  "sample_engine =
     \<lparr>Number = (\<lambda>s. if s = ''40'' then Fin 40 else NaN),
      num_to_string = (\<lambda>r. if r = 1 then ''1'' else ''0''),
      multiply = (\<lambda>a b. Fin (a * b)),
      null_prop_error = (\<lambda>k. ''Cannot read properties of null'')\<rparr>"

definition sample_form :: form where
  "sample_form = INITIAL_FORM\<lparr>form_location := ''Pune'', form_temperature := ''Hot'',
     form_rainfall := ''Low'', form_N := ''40''\<rparr>"

definition sample_preview :: json where
  "sample_preview = JObj [(''location'', JStr ''Pune''), (''soil_source'', JStr ''auto'')]"

definition sample_events :: "event list" where
  "sample_events =
     [Change F_location ''Pune'', Change F_temperature ''Hot'', Submit,
      Preview_reply (Http_ok sample_preview), Confirm]"

text \<open>Twenty-one crop saves, numbered 0 to 20 by their dates, all accepted by the storage.\<close>

definition sample_save :: "nat \<Rightarrow> history_op" where
  "sample_save n = Crop_saved True (digits n) (JObj [(''crop'', JStr ''rice'')])"

definition sample_saves :: "history_op list" where
  "sample_saves = map sample_save [0..<21]"

definition sample_payload :: payload where
  "sample_payload =
     buildPayload sample_engine (INITIAL_FORM\<lparr>form_location := ''Pune'', form_temperature := ''Hot''\<rparr>)"

text \<open>
  Detection replies: one with the confidence 0, one whose \<open>disease_name\<close> is present but
  empty, and one with only \<open>label\<close> and \<open>confidence_percent\<close>.
\<close>

definition zero_confidence_reply :: json where
  "zero_confidence_reply = JObj [(''label'', JStr ''Tomato___Late_blight''), (''confidence'', JNum 0)]"

definition empty_name_reply :: json where
  "empty_name_reply =
     JObj [(''disease_name'', JStr ''''), (''label'', JStr ''Leaf rust''),
           (''confidence_percent'', JNum (7 / 20))]"

definition label_only_reply :: json where
  "label_only_reply = JObj [(''label'', JStr ''Leaf rust''), (''confidence_percent'', JNum (7 / 20))]"

definition quarter_confidence_reply :: json where
  "quarter_confidence_reply =
     JObj [(''label'', JStr ''Leaf rust''), (''confidence_percent'', JNum (1 / 4))]"

definition sample_file :: js_file where
  "sample_file = \<lparr>file_name = ''leaf.jpg'', file_size = 12 * 1024 * 1024, file_type = ''image/jpeg''\<rparr>"


section \<open>Evaluation of the sample inputs\<close>

lemma sample_run:
  "run sample_engine sample_events (mount None) =
     (mount None)\<lparr>form := INITIAL_FORM\<lparr>form_location := ''Pune'', form_temperature := ''Hot''\<rparr>,
       isLoading := True, step := Confirm_step, previewData := sample_preview,
       pending_confirms :=
         [(INITIAL_FORM\<lparr>form_location := ''Pune'', form_temperature := ''Hot''\<rparr>, sample_preview)],
       net_log :=
         [Sent_preview (buildPayload sample_engine
            (INITIAL_FORM\<lparr>form_location := ''Pune'', form_temperature := ''Hot''\<rparr>)),
          Preview_replied (Http_ok sample_preview),
          Sent_confirm (buildPayload sample_engine
            (INITIAL_FORM\<lparr>form_location := ''Pune'', form_temperature := ''Hot''\<rparr>))]\<rparr>"
  by (simp add: sample_events_def mount_def handleChange_def handlePreview_def
      handlePreview_reply_def handleConfirm_def sample_preview_def INITIAL_FORM_def trim_def
      is_ws_def Let_def)

lemma toFixed_sample_lat: "toFixed 4 (1852043 / 100000) = ''18.5204''"
proof -
  have "\<lfloor>(1852043 / 100000 :: rat) * 10 ^ 4 + 1 / 2\<rfloor> = 185204"
    by (simp add: floor_eq_iff)
  then show ?thesis
    by (simp add: toFixed_def toFixed_abs_def Let_def digits.simps digit_char_def)
qed

lemma toFixed_sample_lng: "toFixed 4 (- (7385673 / 100000)) = ''-73.8567''"
proof -
  have "\<lfloor>(7385673 / 100000 :: rat) * 10 ^ 4 + 1 / 2\<rfloor> = 738567"
    by (simp add: floor_eq_iff)
  then show ?thesis
    by (simp add: toFixed_def toFixed_abs_def Let_def digits.simps digit_char_def)
qed

section \<open>Properties of the payload normalizer\<close>

text \<open>
  C1. For every form state, \<open>buildPayload\<close> maps the temperature bucket Cool, Moderate, Hot
  to 18, 25, 32, the humidity bucket Low, Medium, High to 30, 55, 80, the rainfall bucket
  Low, Medium, High to 400, 750, 1200, and anything else (the unset bucket is the empty
  string) to \<open>null\<close>; \<open>land_size\<close> is \<open>Number\<close> of the field when it is not empty and
  \<open>null\<close> otherwise; \<open>manual_soil\<close> is \<open>null\<close> exactly when the four fields N, P, K, ph
  are all the empty string, and otherwise holds \<open>Number\<close> of every entered field, with 0
  for an empty N, P or K and 7 for an empty ph.
\<close>

theorem buildPayload_mapping:
  "temperature (buildPayload env f) =
     (if form_temperature f = ''Cool'' then Some (Fin 18)
      else if form_temperature f = ''Moderate'' then Some (Fin 25)
      else if form_temperature f = ''Hot'' then Some (Fin 32)
      else None)
   \<and> humidity (buildPayload env f) =
     (if form_humidity f = ''Low'' then Some (Fin 30)
      else if form_humidity f = ''Medium'' then Some (Fin 55)
      else if form_humidity f = ''High'' then Some (Fin 80)
      else None)
   \<and> rainfall (buildPayload env f) =
     (if form_rainfall f = ''Low'' then Some (Fin 400)
      else if form_rainfall f = ''Medium'' then Some (Fin 750)
      else if form_rainfall f = ''High'' then Some (Fin 1200)
      else None)
   \<and> land_size (buildPayload env f) =
     (if form_land_size f = '''' then None else Some (Number env (form_land_size f)))
   \<and> (manual_soil (buildPayload env f) = None) =
     (form_N f = '''' \<and> form_P f = '''' \<and> form_K f = '''' \<and> form_ph f = '''')
   \<and> manual_soil (buildPayload env f) =
     (if form_N f = '''' \<and> form_P f = '''' \<and> form_K f = '''' \<and> form_ph f = '''' then None
      else Some \<lparr>soil_N = (if form_N f = '''' then Fin 0 else Number env (form_N f)),
                 soil_P = (if form_P f = '''' then Fin 0 else Number env (form_P f)),
                 soil_K = (if form_K f = '''' then Fin 0 else Number env (form_K f)),
                 soil_ph = (if form_ph f = '''' then Fin 7 else Number env (form_ph f))\<rparr>)"
  by (simp add: buildPayload_def mapTemperatureCategory_def mapHumidityCategory_def
      mapRainfallCategory_def Let_def)

theorem buildPayload_mapping_witness:
  "temperature (buildPayload sample_engine sample_form) = Some (Fin 32)
   \<and> humidity (buildPayload sample_engine sample_form) = None
   \<and> rainfall (buildPayload sample_engine sample_form) = Some (Fin 400)
   \<and> land_size (buildPayload sample_engine sample_form) = None
   \<and> manual_soil (buildPayload sample_engine sample_form) =
       Some \<lparr>soil_N = Fin 40, soil_P = Fin 0, soil_K = Fin 0, soil_ph = Fin 7\<rparr>"
  using buildPayload_mapping [of sample_engine sample_form]
  by (simp add: sample_form_def sample_engine_def INITIAL_FORM_def)

section \<open>Properties of the history store\<close>

lemma bounded_store_cases:
  "bounded_store s \<longleftrightarrow> s = None \<or> (\<exists>h. s = Some (Parses (JArr h)) \<and> length h \<le> 20)"
  by (cases s rule: bounded_store.cases) simp_all

lemma entries_simps [simp]:
  "entries None = []"
  "entries (Some (Parses (JArr h))) = h"
  by (simp_all add: entries_def)

lemma history_step_appended:
  assumes "bounded_store s" and "appended x = Some e"
  shows "history_step env x s = Some (Parses (JArr (take 20 (e # entries s))))"
proof (cases x)
  case (Crop_saved ok now summary)
  with assms show ?thesis
    by (auto simp add: saveToHistory_def bounded_store_cases split: if_splits)
next
  case (Disease_replied ok now f r st)
  with assms show ?thesis
    by (cases r) (auto simp add: handleDetect_reply_def bounded_store_cases split: if_splits)
next
  case Cleared
  with assms show ?thesis by simp
qed

lemma history_step_skipped:
  assumes "bounded_store s" and "appended x = None" and "x \<noteq> Cleared"
  shows "history_step env x s = s"
proof (cases x)
  case (Crop_saved ok now summary)
  with assms show ?thesis
    by (auto simp add: saveToHistory_def bounded_store_cases split: if_splits)
next
  case (Disease_replied ok now f r st)
  with assms show ?thesis
    by (cases r) (auto simp add: handleDetect_reply_def bounded_store_cases split: if_splits)
next
  case Cleared
  with assms show ?thesis by simp
qed

lemma history_step_bounded:
  assumes "bounded_store s"
  shows "bounded_store (history_step env x s)"
proof (cases "appended x")
  case (Some e)
  with assms show ?thesis by (simp add: history_step_appended)
next
  case None
  show ?thesis
  proof (cases "x = Cleared")
    case True
    then show ?thesis by (simp add: clearHistory_def)
  next
    case False
    with assms None show ?thesis by (simp add: history_step_skipped)
  qed
qed

lemma history_run_bounded:
  "bounded_store s \<Longrightarrow> bounded_store (history_run env xs s)"
  by (induction xs arbitrary: s) (simp_all add: history_step_bounded)

lemma take_append_take: "take n (xs @ take n ys) = take n (xs @ ys)"
  by (simp add: min_def)

lemma history_run_entries:
  assumes "bounded_store s" and "Cleared \<notin> set xs"
  shows "entries (history_run env xs s) = take 20 (rev (List.map_filter appended xs) @ entries s)"
  using assms
proof (induction xs arbitrary: s)
  case Nil
  then show ?case
    by (auto simp add: List.map_filter_simps bounded_store_cases)
next
  case (Cons x xs)
  from Cons.prems have b: "bounded_store (history_step env x s)"
    by (simp add: history_step_bounded)
  from Cons.prems have c: "Cleared \<notin> set xs" and nx: "x \<noteq> Cleared" by auto
  have ih: "entries (history_run env xs (history_step env x s)) =
      take 20 (rev (List.map_filter appended xs) @ entries (history_step env x s))"
    using Cons.IH [OF b c] .
  show ?case
  proof (cases "appended x")
    case None
    with Cons.prems nx have "history_step env x s = s"
      by (simp add: history_step_skipped)
    with ih None show ?thesis by (simp add: List.map_filter_simps)
  next
    case (Some e)
    with Cons.prems have "history_step env x s = Some (Parses (JArr (take 20 (e # entries s))))"
      by (simp add: history_step_appended)
    then have "entries (history_step env x s) = take 20 (e # entries s)"
      by (simp only: entries_simps)
    with ih have "entries (history_run env xs (history_step env x s)) =
        take 20 (rev (List.map_filter appended xs) @ take 20 (e # entries s))"
      by (simp only:)
    also have "\<dots> = take 20 (rev (List.map_filter appended xs) @ e # entries s)"
      by (rule take_append_take)
    also have "rev (List.map_filter appended xs) @ e # entries s =
        rev (List.map_filter appended (x # xs)) @ entries s"
      using Some by (simp add: List.map_filter_simps)
    finally show ?thesis by (simp only: history_run.simps)
  qed
qed

text \<open>
  C2. Starting from an absent key, after any sequence of crop saves, detection replies and
  clears, with any outcome of the storage writes, the key is absent or holds an array of
  at most 20 entries. An operation that gets as far as writing puts its entry in front of
  the stored ones and keeps the first 20, which drops the oldest entry when 20 were
  stored; every other save or reply leaves the storage as it was. So without a clear in
  between the stored entries are the written ones, the most recent first, cut to the 20
  most recent: after 21 written entries, all but the first one written.
\<close>

theorem history_bounded_newest_first:
  "(history_run env xs None = None
        \<or> (\<exists>h. history_run env xs None = Some (Parses (JArr h)) \<and> length h \<le> 20))
   \<and> (appended x = Some e \<longrightarrow>
        entries (history_step env x (history_run env xs None)) =
          take 20 (e # entries (history_run env xs None)))
   \<and> (appended x = Some e \<and> length (entries (history_run env xs None)) = 20 \<longrightarrow>
        entries (history_step env x (history_run env xs None)) =
          e # butlast (entries (history_run env xs None)))
   \<and> (Cleared \<notin> set xs \<longrightarrow>
        entries (history_run env xs None) = take 20 (rev (List.map_filter appended xs)))
   \<and> (Cleared \<notin> set xs \<and> length (List.map_filter appended xs) = 21 \<longrightarrow>
        entries (history_run env xs None) = rev (tl (List.map_filter appended xs)))"
proof -
  have b: "bounded_store (history_run env xs None)"
    by (simp add: history_run_bounded)
  have app: "entries (history_step env x (history_run env xs None)) =
      take 20 (e # entries (history_run env xs None))" if "appended x = Some e"
    using b that by (simp add: history_step_appended)
  have full: "take 20 (e # h) = e # butlast h" if "length h = 20" for h :: "json list"
    using that by (simp add: butlast_conv_take)
  have run: "entries (history_run env xs None) = take 20 (rev (List.map_filter appended xs))"
    if "Cleared \<notin> set xs"
    using history_run_entries [of None xs env] that by simp
  have tl21: "take 20 (rev es) = rev (tl es)" if "length es = 21" for es :: "json list"
  proof -
    from that obtain a as where "es = a # as" and "length as = 20"
      by (cases es) auto
    then show ?thesis by simp
  qed
  show ?thesis
    using b app full run tl21 by (simp add: bounded_store_cases [symmetric])
qed

lemma sample_saves_appended:
  "List.map_filter appended (map sample_save ns) =
     map (\<lambda>n. history_entry ''crop'' (JObj [(''crop'', JStr ''rice'')]) (digits n)) ns"
  by (induction ns) (simp_all add: List.map_filter_simps sample_save_def)

theorem history_bounded_newest_first_witness:
  "entries (history_run sample_engine sample_saves None) =
     map (\<lambda>n. history_entry ''crop'' (JObj [(''crop'', JStr ''rice'')]) (digits n))
       [20, 19, 18, 17, 16, 15, 14, 13, 12, 11, 10, 9, 8, 7, 6, 5, 4, 3, 2, 1]"
proof -
  have ns: "[0..<21] = [0, 1, 2, 3, 4, 5, 6, 7, 8, 9, 10, 11, 12, 13, 14, 15, 16, 17, 18, 19, 20]"
    by (simp add: upt_rec)
  have m: "List.map_filter appended sample_saves =
      map (\<lambda>n. history_entry ''crop'' (JObj [(''crop'', JStr ''rice'')]) (digits n))
        [0, 1, 2, 3, 4, 5, 6, 7, 8, 9, 10, 11, 12, 13, 14, 15, 16, 17, 18, 19, 20]"
    by (simp only: sample_saves_def sample_saves_appended ns)
  have c: "Cleared \<notin> set sample_saves"
    by (auto simp add: sample_saves_def sample_save_def)
  have l: "length (List.map_filter appended sample_saves) = 21"
    unfolding m by simp
  have "entries (history_run sample_engine sample_saves None) =
      rev (tl (List.map_filter appended sample_saves))"
    using c l history_bounded_newest_first [of sample_engine sample_saves] by blast
  also have "\<dots> =
      map (\<lambda>n. history_entry ''crop'' (JObj [(''crop'', JStr ''rice'')]) (digits n))
        [20, 19, 18, 17, 16, 15, 14, 13, 12, 11, 10, 9, 8, 7, 6, 5, 4, 3, 2, 1]"
    unfolding m by simp
  finally show ?thesis .
qed

subsection \<open>Reading the history\<close>

text \<open>
  C9 at a storage holding the JSON text of a string: the read does not throw, and the
  history it leaves is the first six characters of that string, not the empty sequence.
\<close>

theorem Home_useEffect_stored_string:
  "Home_useEffect (Some (Parses (JStr ''corrupted''))) = JStr ''corrup''"
  by (simp add: Home_useEffect_def)


section \<open>Properties of the advisory workflow\<close>

lemma trim_empty_iff: "trim s = '''' \<longleftrightarrow> (\<forall>c \<in> set s. is_ws c)"
proof (cases "dropWhile is_ws s")
  case Nil
  then have "\<forall>c \<in> set s. is_ws c"
    by (simp add: dropWhile_eq_Nil_conv)
  moreover have "trim s = []"
    unfolding trim_def Nil by simp
  ultimately show ?thesis by simp
next
  case (Cons x xs)
  then have ne: "dropWhile is_ws s \<noteq> []" by simp
  then have "\<not> is_ws (hd (dropWhile is_ws s))"
    by (rule hd_dropWhile)
  with Cons have nx: "\<not> is_ws x" by simp
  from ne have "\<not> (\<forall>c \<in> set s. is_ws c)"
    by (simp add: dropWhile_eq_Nil_conv)
  moreover have "trim s \<noteq> []"
    using nx Cons by (auto simp add: trim_def dropWhile_eq_Nil_conv)
  ultimately show ?thesis by simp
qed

text \<open>
  C5. When the location field is empty or holds white space only, the preview action sets
  the validation error and does nothing else: no request is issued (the network log and
  the count of requests in flight are as before), the step is as before, and the form
  fields are unchanged.
\<close>

theorem handlePreview_blank_location:
  assumes "\<forall>c \<in> set (form_location (form w)). is_ws c"
  shows "handlePreview env w = w\<lparr>error := ''Please enter a location.''\<rparr>
       \<and> dispatch env Submit w = w\<lparr>error := ''Please enter a location.''\<rparr>
       \<and> net_log (handlePreview env w) = net_log w
       \<and> pending_previews (handlePreview env w) = pending_previews w
       \<and> step (handlePreview env w) = step w
       \<and> form (handlePreview env w) = form w"
  using assms by (simp add: handlePreview_def trim_empty_iff)

theorem handlePreview_blank_location_witness:
  "handlePreview sample_engine (handleChange F_location ''  '' (mount None)) =
       (handleChange F_location ''  '' (mount None))\<lparr>error := ''Please enter a location.''\<rparr>
   \<and> net_log (handlePreview sample_engine (handleChange F_location ''  '' (mount None))) = []
   \<and> step (handlePreview sample_engine (handleChange F_location ''  '' (mount None))) = Form_step"
proof -
  have h: "\<forall>c \<in> set (form_location (form (handleChange F_location ''  '' (mount None)))). is_ws c"
    by (simp add: handleChange_def mount_def is_ws_def)
  show ?thesis
    using h handlePreview_blank_location [OF h, of sample_engine]
    by (simp add: handleChange_def mount_def)
qed

lemma snoc_eq_decomp:
  "xs @ [a] = pre @ b # post \<longleftrightarrow>
     (post = [] \<and> pre = xs \<and> a = b) \<or> (\<exists>post'. post = post' @ [a] \<and> xs = pre @ b # post')"
  by (cases post rule: rev_cases) auto

lemma workflow_inv_mount: "workflow_inv (mount c)"
  by (simp add: workflow_inv_def mount_def)

lemma workflow_inv_same:
  assumes "workflow_inv w" and "net_log w' = net_log w" and "previewData w' = previewData w"
    and "pending_previews w' = pending_previews w"
  shows "workflow_inv w'"
  using assms by (simp add: workflow_inv_def)

lemma workflow_inv_handlePreview:
  assumes "workflow_inv w"
  shows "workflow_inv (handlePreview env w)"
proof (cases "trim (form_location (form w)) = ''''")
  case True
  then show ?thesis
    using assms by (intro workflow_inv_same [OF assms]) (simp_all add: handlePreview_def)
next
  case False
  then have l: "net_log (handlePreview env w) = net_log w @ [Sent_preview (buildPayload env (form w))]"
    and p: "previewData (handlePreview env w) = previewData w"
    by (simp_all add: handlePreview_def)
  show ?thesis
    unfolding workflow_inv_def l p snoc_eq_decomp
    using assms unfolding workflow_inv_def
    by (auto simp del: append_assoc)
qed

lemma workflow_inv_handlePreview_reply:
  assumes "workflow_inv w"
  shows "workflow_inv (handlePreview_reply env r w)"
proof (cases "pending_previews w = 0")
  case True
  then show ?thesis using assms by (simp add: handlePreview_reply_def)
next
  case False
  then have l: "net_log (handlePreview_reply env r w) = net_log w @ [Preview_replied r]"
    by (cases r) (simp_all add: handlePreview_reply_def preview_failed_def Let_def)
  from False assms obtain q where q: "Sent_preview q \<in> set (net_log w)"
    by (auto simp add: workflow_inv_def)
  have p: "truthy (previewData (handlePreview_reply env r w)) \<Longrightarrow>
      truthy (previewData w) \<or> (\<exists>d. r = Http_ok d \<and> truthy d)"
    using False by (cases r) (simp_all add: handlePreview_reply_def preview_failed_def Let_def)
  show ?thesis
    unfolding workflow_inv_def l snoc_eq_decomp
    using assms q p unfolding workflow_inv_def
    by (auto simp del: append_assoc)
qed

lemma workflow_inv_handleConfirm:
  assumes "workflow_inv w"
  shows "workflow_inv (handleConfirm env w)"
proof (cases "truthy (previewData w)")
  case False
  then show ?thesis using assms by (simp add: handleConfirm_def)
next
  case True
  then have l: "net_log (handleConfirm env w) = net_log w @ [Sent_confirm (buildPayload env (form w))]"
    and p: "previewData (handleConfirm env w) = previewData w"
    and n: "pending_previews (handleConfirm env w) = pending_previews w"
    by (simp_all add: handleConfirm_def)
  show ?thesis
    unfolding workflow_inv_def l p n snoc_eq_decomp
    using assms True unfolding workflow_inv_def
    by (auto simp del: append_assoc)
qed

lemma workflow_inv_handleConfirm_reply:
  assumes "workflow_inv w"
  shows "workflow_inv (handleConfirm_reply env f pd r w)"
proof (cases "(f, pd) \<in> set (pending_confirms w)")
  case False
  then show ?thesis using assms by (simp add: handleConfirm_reply_def)
next
  case True
  then have l: "net_log (handleConfirm_reply env f pd r w) = net_log w @ [Confirm_replied r]"
    and p: "previewData (handleConfirm_reply env f pd r w) = previewData w"
    and n: "pending_previews (handleConfirm_reply env f pd r w) = pending_previews w"
    by (cases r; simp add: handleConfirm_reply_def confirm_failed_def Let_def)+
  show ?thesis
    unfolding workflow_inv_def l p n snoc_eq_decomp
    using assms unfolding workflow_inv_def
    by (auto simp del: append_assoc)
qed

lemma workflow_inv_dispatch:
  assumes "workflow_inv w"
  shows "workflow_inv (dispatch env ev w)"
proof (cases ev)
  case Submit
  then show ?thesis using assms by (simp add: workflow_inv_handlePreview)
next
  case (Preview_reply r)
  then show ?thesis using assms by (simp add: workflow_inv_handlePreview_reply)
next
  case Confirm
  then show ?thesis using assms by (simp add: workflow_inv_handleConfirm)
next
  case (Confirm_reply f pd r)
  then show ?thesis using assms by (simp add: workflow_inv_handleConfirm_reply)
next
  case Back
  then show ?thesis using assms by (simp add: workflow_inv_def handleBackToForm_def)
qed (simp_all add: workflow_inv_same [OF assms] handleChange_def voice_unsupported_def
    voice_onstart_def voice_onend_def voice_onerror_def voice_onresult_def handleUseGps_def
    gps_success_def gps_error_def handleMapSelect_def handleMapSelect_resolved_def
    saveLocationCache_def Let_def)

lemma workflow_inv_run: "workflow_inv w \<Longrightarrow> workflow_inv (run env evs w)"
  by (induction evs arbitrary: w) (simp_all add: workflow_inv_dispatch)

lemma enters_confirm:
  assumes "step w = Form_step" and "step (dispatch env ev w) = Confirm_step"
  shows "\<exists>d. ev = Preview_reply (Http_ok d) \<and> 0 < pending_previews w"
proof (cases ev)
  case (Preview_reply r)
  with assms show ?thesis
    by (cases r) (auto simp add: handlePreview_reply_def preview_failed_def Let_def split: if_splits)
next
  case (Confirm_reply f pd r)
  with assms show ?thesis
    by (cases r) (auto simp add: handleConfirm_reply_def confirm_failed_def Let_def split: if_splits)
qed (use assms in \<open>auto simp add: handleChange_def voice_unsupported_def
    voice_onstart_def voice_onend_def voice_onerror_def voice_onresult_def handleUseGps_def
    gps_success_def gps_error_def handleMapSelect_def handleMapSelect_resolved_def
    saveLocationCache_def handlePreview_def handleConfirm_def handleBackToForm_def Let_def
    split: if_splits\<close>)

text \<open>
  C3. After any sequence of events from the mounted page, every confirm request in the
  network log comes after a 2xx preview reply with a truthy body, and every preview reply
  comes after a preview request. The confirm action changes nothing (and sends nothing)
  while the stored preview is falsy, and the only event that moves the page from the form
  step to the confirm step is a 2xx reply to a preview request awaiting it.
\<close>

theorem confirm_only_after_preview:
  "(\<forall>pre p post. net_log (run env evs (mount c)) = pre @ Sent_confirm p # post \<longrightarrow>
       (\<exists>d. truthy d \<and> Preview_replied (Http_ok d) \<in> set pre))
   \<and> (\<forall>pre r post. net_log (run env evs (mount c)) = pre @ Preview_replied r # post \<longrightarrow>
       (\<exists>q. Sent_preview q \<in> set pre))
   \<and> (\<not> truthy (previewData w) \<longrightarrow> handleConfirm env w = w \<and> dispatch env Confirm w = w)
   \<and> (step w = Form_step \<and> step (dispatch env ev w) = Confirm_step \<longrightarrow>
       (\<exists>d. ev = Preview_reply (Http_ok d) \<and> 0 < pending_previews w))"
proof -
  have "workflow_inv (run env evs (mount c))"
    by (simp add: workflow_inv_run workflow_inv_mount)
  then show ?thesis
    using enters_confirm [of w env ev]
    by (simp add: workflow_inv_def handleConfirm_def)
qed

theorem confirm_only_after_preview_witness:
  "net_log (run sample_engine sample_events (mount None)) =
     [Sent_preview sample_payload, Preview_replied (Http_ok sample_preview)]
       @ Sent_confirm sample_payload # []
   \<and> (\<exists>d. truthy d \<and> Preview_replied (Http_ok d) \<in>
         set [Sent_preview sample_payload, Preview_replied (Http_ok sample_preview)])
   \<and> handleConfirm sample_engine (mount None) = mount None"
proof -
  have l: "net_log (run sample_engine sample_events (mount None)) =
     [Sent_preview sample_payload, Preview_replied (Http_ok sample_preview)]
       @ Sent_confirm sample_payload # []"
    by (simp add: sample_run sample_payload_def)
  have n: "\<not> truthy (previewData (mount None))"
    by (simp add: mount_def)
  from confirm_only_after_preview [of sample_engine sample_events None "mount None"]
  have a: "\<forall>pre p post. net_log (run sample_engine sample_events (mount None)) =
        pre @ Sent_confirm p # post \<longrightarrow>
        (\<exists>d. truthy d \<and> Preview_replied (Http_ok d) \<in> set pre)"
    and b: "\<not> truthy (previewData (mount None)) \<longrightarrow>
        handleConfirm sample_engine (mount None) = mount None"
    by blast+
  from a l have "\<exists>d. truthy d \<and> Preview_replied (Http_ok d) \<in>
         set [Sent_preview sample_payload, Preview_replied (Http_ok sample_preview)]"
    by blast
  with l b n show ?thesis by blast
qed

text \<open>
  C4. When the reply to a confirm request is a network error or a non-2xx response, the
  step, the stored preview and the form fields are what they were, nothing is handed to
  the results view, the loading flag is cleared, and the error shown is the message of the
  failure (the generic text when that message is empty), never the empty string.
\<close>

theorem confirm_failure_keeps_state:
  assumes "(f, pd) \<in> set (pending_confirms w)"
    and "r = Net_error m \<or> r = Http_error errData"
  shows "step (handleConfirm_reply env f pd r w) = step w
       \<and> previewData (handleConfirm_reply env f pd r w) = previewData w
       \<and> form (handleConfirm_reply env f pd r w) = form w
       \<and> navigations (handleConfirm_reply env f pd r w) = navigations w
       \<and> \<not> isLoading (handleConfirm_reply env f pd r w)
       \<and> error (handleConfirm_reply env f pd r w) \<noteq> ''''
       \<and> error (handleConfirm_reply env f pd r w) =
           or_else (case r of Net_error t \<Rightarrow> t
                            | Http_error e \<Rightarrow> error_detail env ''Advisory request failed.'' e
                            | _ \<Rightarrow> '''')
                   ''Unable to fetch recommendations. Please try again.''"
  using assms
  by (auto simp add: handleConfirm_reply_def confirm_failed_def Let_def or_else_def)

theorem confirm_failure_keeps_state_witness:
  "(form (run sample_engine sample_events (mount None)), sample_preview)
      \<in> set (pending_confirms (run sample_engine sample_events (mount None)))
   \<and> step (handleConfirm_reply sample_engine
        (form (run sample_engine sample_events (mount None))) sample_preview
        (Http_error (Some (JObj [(''detail'', JStr ''Soil service down'')])))
        (run sample_engine sample_events (mount None))) = Confirm_step
   \<and> previewData (handleConfirm_reply sample_engine
        (form (run sample_engine sample_events (mount None))) sample_preview
        (Http_error (Some (JObj [(''detail'', JStr ''Soil service down'')])))
        (run sample_engine sample_events (mount None))) = sample_preview
   \<and> error (handleConfirm_reply sample_engine
        (form (run sample_engine sample_events (mount None))) sample_preview
        (Http_error (Some (JObj [(''detail'', JStr ''Soil service down'')])))
        (run sample_engine sample_events (mount None))) = ''Soil service down''"
proof -
  have h: "(form (run sample_engine sample_events (mount None)), sample_preview)
      \<in> set (pending_confirms (run sample_engine sample_events (mount None)))"
    by (simp add: sample_run)
  have d: "error_detail sample_engine ''Advisory request failed.''
      (Some (JObj [(''detail'', JStr ''Soil service down'')])) = ''Soil service down''"
    by (simp add: error_detail_def)
  show ?thesis
    using h d confirm_failure_keeps_state [OF h, of
        "Http_error (Some (JObj [(''detail'', JStr ''Soil service down'')]))" "''''"
        "Some (JObj [(''detail'', JStr ''Soil service down'')])" sample_engine]
    by (simp add: sample_run or_else_def)
qed

section \<open>Properties of the location resolver\<close>

lemma digits_small: "n < 10 \<Longrightarrow> digits n = [digit_char n]"
  by (subst digits.simps) simp

lemma digits_split: "10 \<le> n \<Longrightarrow> digits n = digits (n div 10) @ [digit_char (n mod 10)]"
  by (subst digits.simps) simp

lemma digits_nonempty: "digits n \<noteq> []"
  by (subst digits.simps) simp

text \<open>
  \<open>toFixed(4)\<close>: the digits of the integer part, a point, and the four digits after it.
\<close>

lemma toFixed_abs_4:
  "toFixed_abs 4 x =
     (let n = nat \<lfloor>x * 10 ^ 4 + 1 / 2\<rfloor>
      in digits (n div 10000) @ ''.'' @
         [digit_char (n div 1000 mod 10), digit_char (n div 100 mod 10),
          digit_char (n div 10 mod 10), digit_char (n mod 10)])"
proof -
  define n where "n = nat \<lfloor>x * 10 ^ 4 + 1 / 2\<rfloor>"
  have z: "digit_char 0 = CHR ''0''" by (simp add: digit_char_def)
  have rep: "replicate 3 c = [c, c, c]" "replicate 2 c = [c, c]" for c :: char
    by (simp_all add: numeral_3_eq_3 numeral_2_eq_2)
  consider "n < 10" | "10 \<le> n" "n < 100" | "100 \<le> n" "n < 1000" | "1000 \<le> n" "n < 10000"
    | "10000 \<le> n" by linarith
  then have "(let m = digits n;
          m' = (if (4::nat) \<noteq> 0 \<and> length m \<le> 4 then replicate (4 + 1 - length m) (CHR ''0'') @ m else m)
      in take (length m' - 4) m' @ ''.'' @ drop (length m' - 4) m') =
     digits (n div 10000) @ ''.'' @
         [digit_char (n div 1000 mod 10), digit_char (n div 100 mod 10),
          digit_char (n div 10 mod 10), digit_char (n mod 10)]"
  proof cases
    case 1
    then show ?thesis by (simp add: digits_small z rep)
  next
    case 2
    then have "n div 10 < 10" by auto
    with 2 show ?thesis
      by (simp add: digits_split [of n] digits_small z rep)
  next
    case 3
    then have "n div 100 < 10" "10 \<le> n div 10" "10 \<le> n" by auto
    with 3 show ?thesis
      by (simp add: digits_split [of n] digits_split [of "n div 10"] digits_small z
          div_mult2_eq [symmetric] rep)
  next
    case 4
    then have "n div 1000 < 10" "10 \<le> n div 100" "10 \<le> n div 10" "10 \<le> n" by auto
    with 4 show ?thesis
      by (simp add: digits_split [of n] digits_split [of "n div 10"] digits_split [of "n div 100"]
          digits_small z div_mult2_eq [symmetric] rep)
  next
    case 5
    then have a: "10 \<le> n div 1000" "10 \<le> n div 100" "10 \<le> n div 10" "10 \<le> n" by auto
    have "digits n = digits (n div 10000) @
        [digit_char (n div 1000 mod 10), digit_char (n div 100 mod 10),
         digit_char (n div 10 mod 10), digit_char (n mod 10)]"
      using a by (simp add: digits_split [of n] digits_split [of "n div 10"]
          digits_split [of "n div 100"] digits_split [of "n div 1000"] div_mult2_eq [symmetric])
    then show ?thesis by (simp add: Let_def digits_nonempty)
  qed
  then show ?thesis
    by (simp add: toFixed_abs_def n_def Let_def)
qed

lemma toFixed_4_rounds:
  fixes x :: rat
  assumes "0 \<le> x"
  shows "\<bar>of_nat (nat \<lfloor>x * 10 ^ 4 + 1 / 2\<rfloor>) / 10 ^ 4 - x\<bar> \<le> 1 / (2 * 10 ^ 4)"
proof -
  define y where "y = x * 10 ^ 4 + 1 / 2"
  have "0 \<le> y" using assms by (simp add: y_def)
  then have "0 \<le> \<lfloor>y\<rfloor>" by simp
  then have n: "(of_nat (nat \<lfloor>y\<rfloor>) :: rat) = of_int \<lfloor>y\<rfloor>" by simp
  have "of_int \<lfloor>y\<rfloor> \<le> y" "y < of_int \<lfloor>y\<rfloor> + 1" by linarith+
  then have "\<bar>of_int \<lfloor>y\<rfloor> - x * 10 ^ 4\<bar> \<le> 1 / 2"
    unfolding y_def by linarith
  then have "\<bar>of_int \<lfloor>y\<rfloor> / 10 ^ 4 - x\<bar> \<le> 1 / (2 * 10 ^ 4)"
    by (simp add: abs_le_iff field_simps)
  then show ?thesis using n by (simp add: y_def)
qed

text \<open>
  C8. When the reverse-geocode request is rejected, answered with a non-ok status, or
  answered with a body that has no \<open>location\<close>, the resolved name is \<open>GPS: \<close> followed by
  the latitude with four decimals, a comma and a space, and the longitude with four
  decimals; the GPS path and the map-pick path both store exactly this name in the form.
\<close>

theorem resolveLocation_fallback:
  assumes "r = Geo_rejected \<or> r = Geo_status \<or> r = Geo_no_data \<or> r = Geo_data None"
  shows "resolveLocation lat lng r = ''GPS: '' @ toFixed 4 lat @ '', '' @ toFixed 4 lng
       \<and> form_location (form (gps_success ok lat lng r w)) =
           ''GPS: '' @ toFixed 4 lat @ '', '' @ toFixed 4 lng
       \<and> form_location (form (handleMapSelect_resolved ok lat lng r w)) =
           ''GPS: '' @ toFixed 4 lat @ '', '' @ toFixed 4 lng"
  using assms
  by (auto simp add: resolveLocation_def gps_fallback_def gps_success_def
      handleMapSelect_resolved_def saveLocationCache_def Let_def)

theorem resolveLocation_fallback_witness:
  "resolveLocation (1852043 / 100000) (- (7385673 / 100000)) Geo_status = ''GPS: 18.5204, -73.8567''
   \<and> form_location (form (gps_success True (1852043 / 100000) (- (7385673 / 100000)) Geo_status
        (mount None))) = ''GPS: 18.5204, -73.8567''
   \<and> form_location (form (handleMapSelect_resolved True (1852043 / 100000) (- (7385673 / 100000))
        Geo_status (mount None))) = ''GPS: 18.5204, -73.8567''"
  using resolveLocation_fallback [of Geo_status "1852043 / 100000" "- (7385673 / 100000)" True
      "mount None"]
  by (simp add: toFixed_sample_lat toFixed_sample_lng)

section \<open>Properties of the disease upload pipeline\<close>

text \<open>
  C10. A file of more than 10 MB is rejected with the too-large error; the staged file and
  its preview URL stay what they were, and the previous result is cleared. A file of at
  most 10 MB becomes the staged file with its new preview URL, and the previous result and
  error are cleared.
\<close>

theorem processFile_size_limit:
  "(file_size f > 10 * 1024 * 1024 \<longrightarrow>
      processFile url (Some f) st =
        st\<lparr>dd_error := ''File too large. Maximum size is 10MB.'', dd_result := None\<rparr>
      \<and> dd_file (processFile url (Some f) st) = dd_file st
      \<and> dd_previewUrl (processFile url (Some f) st) = dd_previewUrl st)
   \<and> (file_size f \<le> 10 * 1024 * 1024 \<longrightarrow>
      processFile url (Some f) st =
        st\<lparr>dd_error := '''', dd_result := None, dd_file := Some f, dd_previewUrl := url\<rparr>)"
  by (simp add: processFile_def)

theorem processFile_size_limit_witness:
  "file_size sample_file > 10 * 1024 * 1024
   \<and> processFile ''blob:1'' (Some sample_file) disease_initial =
       disease_initial\<lparr>dd_error := ''File too large. Maximum size is 10MB.''\<rparr>
   \<and> dd_file (processFile ''blob:1'' (Some sample_file) disease_initial) = None"
  using processFile_size_limit [of sample_file "''blob:1''" disease_initial]
  by (simp add: sample_file_def disease_initial_def)


text \<open>
  C7, as stated, fails: in a response whose \<open>disease_name\<close> is the empty string, that
  field is the first present one, and the name is taken from \<open>label\<close>.
\<close>

theorem first_present_counterexample:
  "first_present empty_name_reply [''disease_name'', ''disease'', ''label''] = Some (JStr '''')
   \<and> diseaseName (normalizeResult empty_name_reply) = JStr ''Leaf rust''"
  by (simp add: empty_name_reply_def normalizeResult_def js_or_def)

text \<open>
  C7, amended. The disease name is the value of the first field among \<open>disease_name\<close>,
  \<open>disease\<close>, \<open>label\<close> whose value is truthy, and \<open>Unknown disease\<close> when none is; the
  confidence is \<open>confidence\<close> when that is a number and \<open>confidence_percent\<close> otherwise. A
  response holding only a truthy \<open>label\<close> and \<open>confidence_percent\<close> is normalized to
  that label and that confidence. The handler stores this result for every 2xx reply
  whose body is not \<open>null\<close>.
\<close>

theorem normalizeResult_fields:
  "diseaseName (normalizeResult data) =
     (case first_truthy data [''disease_name'', ''disease'', ''label''] of
        Some v \<Rightarrow> v
      | None \<Rightarrow> JStr ''Unknown disease'')
   \<and> (js_get data ''confidence'' = Some (JNum n) \<longrightarrow>
        confidence (normalizeResult data) = Some (JNum n))
   \<and> (\<not> is_number (js_get data ''confidence'') \<longrightarrow>
        confidence (normalizeResult data) = js_get data ''confidence_percent'')
   \<and> (truthy l \<longrightarrow>
        diseaseName (normalizeResult (JObj [(''label'', l), (''confidence_percent'', c)])) = l
        \<and> confidence (normalizeResult (JObj [(''label'', l), (''confidence_percent'', c)])) = Some c)
   \<and> (data \<noteq> JNull \<longrightarrow>
        dd_result (fst (handleDetect_reply env ok now f (Http_ok data) (st, store))) =
          Some (normalizeResult data))"
proof -
  have name: "diseaseName (normalizeResult data) =
     (case first_truthy data [''disease_name'', ''disease'', ''label''] of
        Some v \<Rightarrow> v
      | None \<Rightarrow> JStr ''Unknown disease'')" for data
    by (cases "js_get data ''disease_name''"; cases "js_get data ''disease''";
        cases "js_get data ''label''")
       (simp_all add: normalizeResult_def js_or_def)
  show ?thesis
    by (simp add: name) (simp add: normalizeResult_def handleDetect_reply_def)
qed

theorem normalizeResult_fields_witness:
  "diseaseName (normalizeResult label_only_reply) = JStr ''Leaf rust''
   \<and> confidence (normalizeResult label_only_reply) = Some (JNum (7 / 20))
   \<and> diseaseName (normalizeResult empty_name_reply) = JStr ''Leaf rust''"
  using normalizeResult_fields [of label_only_reply _ "JStr ''Leaf rust''" "JNum (7 / 20)"]
    normalizeResult_fields [of empty_name_reply]
  by (simp add: label_only_reply_def empty_name_reply_def)

text \<open>
  C6, as stated, fails: a confidence of 0 gives the percent 0, which is below 40, and no
  notice is rendered.
\<close>

theorem low_confidence_zero_counterexample:
  "js_less (confidencePercent sample_engine (Some (normalizeResult zero_confidence_reply))) (Fin 40)
   \<and> \<not> low_confidence_notice sample_engine (Some (normalizeResult zero_confidence_reply))"
  by (simp add: zero_confidence_reply_def normalizeResult_def confidencePercent_def
      low_confidence_notice_def js_or_def sample_engine_def)

text \<open>
  C6, amended. The percent of a confidence \<open>c\<close> is the product of \<open>c\<close> and 100 as the
  engine computes it, whenever that product is a finite number \<open>p\<close> of at most 100. The
  notice is rendered exactly when the percent is above 0 and below 40, that is when
  \<open>0 < p\<close> and \<open>p < 40\<close>. Both hold in the same way when the response gave \<open>c\<close> as
  \<open>confidence\<close> and when its \<open>confidence\<close> is not a number and it gave \<open>c\<close> as
  \<open>confidence_percent\<close>.
\<close>

theorem low_confidence_rule:
  "(confidence r = Some (JNum c) \<and> multiply env c 100 = Fin p \<and> p \<le> 100 \<longrightarrow>
        confidencePercent env (Some r) = Fin p)
   \<and> low_confidence_notice env (Some r) =
       (js_less (Fin 0) (confidencePercent env (Some r))
        \<and> js_less (confidencePercent env (Some r)) (Fin 40))
   \<and> (js_get data ''confidence'' = Some (JNum c) \<and> multiply env c 100 = Fin p \<and> p \<le> 100 \<longrightarrow>
        confidencePercent env (Some (normalizeResult data)) = Fin p
        \<and> low_confidence_notice env (Some (normalizeResult data)) = (0 < p \<and> p < 40))
   \<and> (\<not> is_number (js_get data ''confidence'') \<and> js_get data ''confidence_percent'' = Some (JNum c)
        \<and> multiply env c 100 = Fin p \<and> p \<le> 100 \<longrightarrow>
        confidencePercent env (Some (normalizeResult data)) = Fin p
        \<and> low_confidence_notice env (Some (normalizeResult data)) = (0 < p \<and> p < 40))"
proof -
  have a: "confidencePercent env (Some r) = Fin p"
    if "confidence r = Some (JNum c)" "multiply env c 100 = Fin p" "p \<le> 100" for r
    using that by (simp add: confidencePercent_def min_def)
  have n: "low_confidence_notice env (Some r) =
      (js_less (Fin 0) (confidencePercent env (Some r))
       \<and> js_less (confidencePercent env (Some r)) (Fin 40))" for r
    by (simp add: low_confidence_notice_def)
  have d1: "confidence (normalizeResult data) = Some (JNum c)"
    if "js_get data ''confidence'' = Some (JNum c)"
    using that by (simp add: normalizeResult_def)
  have d2: "confidence (normalizeResult data) = Some (JNum c)"
    if "\<not> is_number (js_get data ''confidence'')" "js_get data ''confidence_percent'' = Some (JNum c)"
    using that by (simp add: normalizeResult_def)
  have q: "confidencePercent env (Some (normalizeResult data)) = Fin p
      \<and> low_confidence_notice env (Some (normalizeResult data)) = (0 < p \<and> p < 40)"
    if "confidence (normalizeResult data) = Some (JNum c)" "multiply env c 100 = Fin p" "p \<le> 100"
    using a [OF that] n [of "normalizeResult data"] by simp
  show ?thesis
    using a [of r] n [of r] q d1 d2 by blast
qed

theorem low_confidence_rule_witness:
  "confidencePercent sample_engine (Some (normalizeResult quarter_confidence_reply)) = Fin 25
   \<and> low_confidence_notice sample_engine (Some (normalizeResult quarter_confidence_reply))"
proof -
  have h: "\<not> is_number (js_get quarter_confidence_reply ''confidence'')
      \<and> js_get quarter_confidence_reply ''confidence_percent'' = Some (JNum (1 / 4))
      \<and> multiply sample_engine (1 / 4) 100 = Fin 25 \<and> (25::rat) \<le> 100"
    by (simp add: quarter_confidence_reply_def sample_engine_def)
  show ?thesis
    using h low_confidence_rule [of _ "1 / 4" sample_engine 25 quarter_confidence_reply]
    by simp
qed

end
